theory Spec2Isabelle
  imports Complex_Main "HOL-Library.AList" "HOL-Library.Sublist"
begin

section \<open>The notebook \<^verbatim>\<open>examples/rapids-azureml-hpo/notebook.ipynb\<close>\<close>

text \<open>
  The notebook is a linear Python script, cut into code cells, that drives the Azure ML
  client library. The library and the service behind it are not part of the repository:
  they are a parameter of the model (\<open>platform\<close> below), which answers every API call
  either with a value or with a raised exception. A run of the notebook is a function
  from the local configuration and the platform to the log of what the run did (cells
  entered, API calls with their arguments, console output) and to how it ended.
  The notebook is run from its first cell to its last, each cell once. What the front
  end displays for the last expression of a cell is left out; so is the credential
  object, which the script only passes on.
\<close>

subsection \<open>Exceptions\<close>

text \<open>
  The only exception class the notebook names is \<open>MlException\<close>
  (\<^verbatim>\<open>from azure.ai.ml.exceptions import MlException\<close>), the base class of the client
  library's own exceptions. An exception has a class, which is what an \<open>except\<close>
  clause looks at, and it reports a condition of the platform: that the resource asked
  for does not exist, or another error. The two are independent: an exception of the
  class \<open>MlException\<close> or of one of its subclasses can report another error than a
  missing resource, and a missing resource can be reported by an exception of another
  class. The string is the exception's message.
\<close>

datatype condition = Not_found | Another_error

datatype py_exception = MlException condition string | OtherException condition string

type_synonym 'a outcome = "py_exception + 'a"



fun raised :: "'a outcome \<Rightarrow> py_exception option" where
  "raised (Inl e) = Some e"
| "raised (Inr v) = None"

subsection \<open>The objects the notebook builds and receives\<close>

text \<open>The workspace handle: the three properties of \<open>ml_client\<close> the notebook reads.\<close>

record MLClient =
  subscription_id :: string
  resource_group_name :: string
  workspace_name :: string

text \<open>\<^verbatim>\<open>AmlCompute(name=, type=, size=, max_instances=, idle_time_before_scale_down=)\<close>\<close>

record AmlCompute =
  compute_name :: string
  compute_type :: string
  compute_size :: string
  max_instances :: int
  idle_time_before_scale_down :: int

text \<open>\<^verbatim>\<open>Environment(build=BuildContext(path=), name=, description=)\<close>\<close>

record BuildContext =
  build_path :: string

record Environment =
  env_build :: BuildContext
  env_name :: string
  env_description :: string

text \<open>
  The values of a job's \<open>inputs\<close> dictionary: \<^verbatim>\<open>Input(type=, path=)\<close>, the literals,
  and the two sweep distributions \<^verbatim>\<open>Choice(values=)\<close> and
  \<^verbatim>\<open>Uniform(min_value=, max_value=)\<close>. The float literals are configuration constants
  that the notebook never computes with; they are kept as the decimal numbers written.
\<close>

datatype input_value =
    Input string string
  | Int_literal int
  | Str_literal string
  | Float_literal real
  | Choice "int list"
  | Uniform real real

fun is_distribution :: "input_value \<Rightarrow> bool" where
  "is_distribution (Choice vs) = True"
| "is_distribution (Uniform lo hi) = True"
| "is_distribution v = False"

text \<open>
  \<^verbatim>\<open>command(environment=, experiment_name=, code=, inputs=, command=, compute=)\<close>.
  The inputs are a Python dict: an association list in insertion order. A command
  built without an experiment name has \<open>None\<close> there.
\<close>

record Command =
  job_environment :: string
  job_experiment_name :: "string option"
  job_code :: string
  job_inputs :: "(string \<times> input_value) list"
  job_command :: string
  job_compute :: string

record SweepLimits =
  max_total_trials :: int
  max_concurrent_trials :: int
  timeout :: int
  trial_timeout :: int

text \<open>
  The sweep node: the command it was derived from (its trial), the keyword arguments of
  \<^verbatim>\<open>.sweep(compute=, sampling_algorithm=, primary_metric=, goal=)\<close>, and the attributes
  the notebook sets afterwards (\<open>None\<close> until set).
\<close>

record Sweep =
  trial :: Command
  sweep_compute :: string
  sampling_algorithm :: string
  primary_metric :: string
  goal :: string
  limits :: "SweepLimits option"
  display_name :: "string option"
  description :: "string option"

text \<open>A job as the service returns it: the two attributes the notebook reads.\<close>

record Job =
  job_name :: string
  studio_url :: string

text \<open>
  Submitting a command rewrites the object passed, in place: the library replaces its
  code path, its environment reference and its compute by the identifiers the service
  resolved them to. A later cell that reads the command reads the rewritten object.
\<close>

record resolved_ids =
  resolved_code :: string
  resolved_environment :: string
  resolved_compute :: string

definition rewritten :: "Command \<Rightarrow> resolved_ids \<Rightarrow> Command" where
  "rewritten job ids =
     job\<lparr>job_code := resolved_code ids,
         job_environment := resolved_environment ids,
         job_compute := resolved_compute ids\<rparr>"

subsection \<open>The platform\<close>

text \<open>
  Every call of the client library that reaches the service, with its arguments.
  \<open>MLClient_init\<close> is the construction \<^verbatim>\<open>MLClient(credential=, subscription_id=,
  resource_group_name=, workspace_name=)\<close> with its three strings.
  \<open>begin_create_or_update(..).result()\<close> and \<open>begin_delete(..).wait()\<close> are each one
  call: starting the operation and waiting for its end.
\<close>

datatype api_call =
    MLClient_init string string string
  | Compute_get string
  | Compute_begin_create_or_update AmlCompute
  | Environments_create_or_update Environment
  | Jobs_create_or_update Command
  | Create_or_update Sweep
  | Jobs_download string string
  | Compute_begin_delete string

text \<open>
  The platform answers each call from its arguments. Each call is made at most once in
  a run, so a function per operation also covers a service whose answers depend on what
  happened before. Registering an environment returns the version the service gave it;
  submitting a command returns the identifiers it resolved and the job created.
\<close>

record platform =
  new_MLClient :: "string \<Rightarrow> string \<Rightarrow> string \<Rightarrow> MLClient outcome"
  compute_get :: "string \<Rightarrow> AmlCompute outcome"
  compute_begin_create_or_update :: "AmlCompute \<Rightarrow> unit outcome"
  environments_create_or_update :: "Environment \<Rightarrow> string outcome"
  jobs_create_or_update :: "Command \<Rightarrow> (resolved_ids \<times> Job) outcome"
  create_or_update :: "Sweep \<Rightarrow> Job outcome"
  jobs_download :: "string \<Rightarrow> string \<Rightarrow> unit outcome"
  compute_begin_delete :: "string \<Rightarrow> unit outcome"


subsection \<open>The log of a run\<close>

text \<open>The code cells of the notebook, in the order of the file, named by their headings.\<close>

datatype cell =
    Verify_SDK_Version
  | Initialize_Workspace
  | Access_Data
  | Create_AML_Compute
  | Prepare_Training_Script
  | Create_Experiment
  | Setup_Environment
  | Submit_Training_Job
  | Start_Hyperparameter_Sweep
  | Submit_Sweep
  | Monitor_SweepJobs
  | Download_Best_Model
  | Delete_Cluster

datatype event =
    Begin cell
  | Magic string
  | Call api_call
  | Print string

text \<open>
  A piece of script takes the log so far and returns the log extended, with either the
  exception that ended it or its value.
\<close>

type_synonym 'a script = "event list \<Rightarrow> event list \<times> 'a outcome"

definition ret :: "'a \<Rightarrow> 'a script" where
  "ret v tr = (tr, Inr v)"

definition seq :: "'a script \<Rightarrow> ('a \<Rightarrow> 'b script) \<Rightarrow> 'b script" where
  "seq m f tr = (case m tr of
                    (tr', Inl e) \<Rightarrow> (tr', Inl e)
                  | (tr', Inr v) \<Rightarrow> f v tr')"

definition emit :: "event \<Rightarrow> unit script" where
  "emit ev tr = (tr @ [ev], Inr ())"

definition call :: "api_call \<Rightarrow> 'a outcome \<Rightarrow> 'a script" where
  "call c answer tr = (tr @ [Call c], answer)"

text \<open>
  \<^verbatim>\<open>try: body  except MlException: handler\<close>. The clause matches by class: the handler
  runs when the body raised an exception of the class \<open>MlException\<close>, whatever it
  reports; an exception of another class raised by the body, and any exception of the
  handler, leaves the statement.
\<close>

definition try_except_MlException :: "'a script \<Rightarrow> 'a script \<Rightarrow> 'a script" where
  "try_except_MlException body handler tr =
     (case body tr of
        (tr', Inl (MlException k m)) \<Rightarrow> handler tr'
      | (tr', Inl (OtherException k m)) \<Rightarrow> (tr', Inl (OtherException k m))
      | (tr', Inr v) \<Rightarrow> (tr', Inr v))"

text \<open>\<^verbatim>\<open>print(*args, sep=sep)\<close>: the arguments joined by \<open>sep\<close>, then a newline.\<close>

fun str_join :: "string \<Rightarrow> string list \<Rightarrow> string" where
  "str_join sep [] = []"
| "str_join sep [s] = s"
| "str_join sep (s # t # ss) = s @ sep @ str_join sep (t # ss)"

definition newline :: string where
  "newline = [CHR 0x0A]"

definition py_print :: "string \<Rightarrow> string list \<Rightarrow> unit script" where
  "py_print sep args = emit (Print (str_join sep args @ newline))"

text \<open>\<^verbatim>\<open>range(a, b)\<close> on integers: \<open>a, a + 1, ..., b - 1\<close>.\<close>

definition py_range :: "int \<Rightarrow> int \<Rightarrow> int list" where
  "py_range a b = [a..b - 1]"

subsection \<open>Operations of the client library on local objects\<close>

text \<open>
  Three operations of the library build local objects from local objects, without a
  call to the service. Calling a command with keyword arguments builds a new command
  from the old one: the command line, the code, the environment and the compute are
  those of the old one as it is at that moment, the inputs of the names given are bound
  to the new values, and the experiment name is not carried over (the new command has
  none). \<open>.sweep(..)\<close> wraps a command into a sweep node with the given settings,
  the inputs bound to distributions being its search space; the compute the sweep runs
  on is the one given to \<open>.sweep\<close>. \<open>.set_limits(..)\<close> sets the node's limits.
\<close>

definition command_call :: "Command \<Rightarrow> (string \<times> input_value) list \<Rightarrow> Command" where
  "command_call job kwargs =
     \<lparr>job_environment = job_environment job,
      job_experiment_name = None,
      job_code = job_code job,
      job_inputs = fold (\<lambda>(k, v) d. AList.update k v d) kwargs (job_inputs job),
      job_command = job_command job,
      job_compute = job_compute job\<rparr>"

definition sweep :: "Command \<Rightarrow> string \<Rightarrow> string \<Rightarrow> string \<Rightarrow> string \<Rightarrow> Sweep" where
  "sweep job compute sampling metric g =
     \<lparr>trial = job, sweep_compute = compute, sampling_algorithm = sampling,
      primary_metric = metric, goal = g, limits = None, display_name = None,
      description = None\<rparr>"

definition set_limits :: "Sweep \<Rightarrow> int \<Rightarrow> int \<Rightarrow> int \<Rightarrow> int \<Rightarrow> Sweep" where
  "set_limits s n_total n_concurrent t trial_t =
     s\<lparr>limits := Some \<lparr>max_total_trials = n_total, max_concurrent_trials = n_concurrent,
                       timeout = t, trial_timeout = trial_t\<rparr>\<rparr>"

definition search_space :: "Sweep \<Rightarrow> (string \<times> input_value) list" where
  "search_space s = filter (\<lambda>(k, v). is_distribution v) (job_inputs (trial s))"

subsection \<open>The notebook's constants and local values\<close>

text \<open>
  The three credentials are placeholders in the file
  (\<^verbatim>\<open>"FILL IN WITH YOUR AZURE ML CREDENTIALS"\<close>) that the user replaces, and
  \<^verbatim>\<open>os.getcwd()\<close> is what the process runs in: these four strings are the
  configuration of a run.
\<close>

record config =
  cfg_subscription_id :: string
  cfg_resource_group_name :: string
  cfg_workspace_name :: string
  getcwd :: string

definition datastore_name :: string where
  "datastore_name = ''workspaceartifactstore''"

definition dataset :: string where
  "dataset = ''airline_20000000.parquet''"

definition data_uri :: "MLClient \<Rightarrow> string" where
  "data_uri ml_client =
     ''azureml://subscriptions/'' @ subscription_id ml_client
     @ ''/resourcegroups/'' @ resource_group_name ml_client
     @ ''/workspaces/'' @ workspace_name ml_client
     @ ''/datastores/'' @ datastore_name
     @ ''/paths/'' @ dataset"

definition gpu_compute_target :: string where
  "gpu_compute_target = ''rapids-cluster''"

text \<open>The \<open>gpu_target\<close> built in the \<open>except\<close> branch.\<close>

definition new_gpu_target :: AmlCompute where
  "new_gpu_target =
     \<lparr>compute_name = ''rapids-cluster'', compute_type = ''amlcompute'',
      compute_size = ''STANDARD_NC12S_V3'', max_instances = 5,
      idle_time_before_scale_down = 300\<rparr>"

text \<open>The two names bound in the cell \<open>Prepare training script\<close>; no later cell reads them.\<close>

definition rapids_script :: string where
  "rapids_script = ''./train_rapids.py''"

definition azure_script :: string where
  "azure_script = ''./rapids_csp_azure.py''"

definition experiment_name :: string where
  "experiment_name = ''test_rapids_aml_cluster''"

definition env_docker_image :: "string \<Rightarrow> Environment" where
  "env_docker_image cwd =
     \<lparr>env_build = \<lparr>build_path = cwd\<rparr>, env_name = ''rapids-mlflow'',
      env_description = ''RAPIDS environment with azureml-mlflow''\<rparr>"

definition command_job :: "string \<Rightarrow> string \<Rightarrow> Command" where
  "command_job cwd uri =
     \<lparr>job_environment = ''rapids-mlflow:1'',
      job_experiment_name = Some experiment_name,
      job_code = cwd,
      job_inputs =
        [(''data_dir'', Input ''uri_file'' uri),
         (''n_bins'', Int_literal 32),
         (''compute'', Str_literal ''single-GPU''),
         (''cv_folds'', Int_literal 5),
         (''n_estimators'', Int_literal 100),
         (''max_depth'', Int_literal 6),
         (''max_features'', Float_literal 0.3)],
      job_command =
        ''python train_rapids.py --data_dir ${{inputs.data_dir}} --n_bins ${{inputs.n_bins}} ''
        @ ''--compute ${{inputs.compute}} --cv_folds ${{inputs.cv_folds}} --n_estimators ${{inputs.n_estimators}} ''
        @ ''--max_depth ${{inputs.max_depth}}  --max_features ${{inputs.max_features}}'',
      job_compute = ''rapids-cluster''\<rparr>"

definition command_job_for_sweep :: "Command \<Rightarrow> Command" where
  "command_job_for_sweep job =
     command_call job
       [(''n_estimators'', Choice (py_range 50 500)),
        (''max_depth'', Choice (py_range 5 19)),
        (''max_features'', Uniform 0.2 1.0)]"

definition sweep_job :: "Command \<Rightarrow> Sweep" where
  "sweep_job job =
     (set_limits
        (sweep (command_job_for_sweep job) ''rapids-cluster'' ''random'' ''Accuracy'' ''Maximize'')
        10 2 18000 3600)
     \<lparr>display_name := Some ''RF-rapids-sweep-job'',
      description := Some ''Run RAPIDS hyperparameter sweep job''\<rparr>"

subsection \<open>The code cells\<close>

text \<open>\<^verbatim>\<open>%pip show azure-ai-ml\<close>: a notebook magic, outside the Python script.\<close>

definition verify_sdk_version :: "unit script" where
  "verify_sdk_version =
     seq (emit (Begin Verify_SDK_Version)) (\<lambda>_.
     emit (Magic ''pip show azure-ai-ml''))"

definition initialize_workspace :: "config \<Rightarrow> platform \<Rightarrow> MLClient script" where
  "initialize_workspace cfg p =
     seq (emit (Begin Initialize_Workspace)) (\<lambda>_.
     seq (call (MLClient_init (cfg_subscription_id cfg) (cfg_resource_group_name cfg)
                  (cfg_workspace_name cfg))
            (new_MLClient p (cfg_subscription_id cfg) (cfg_resource_group_name cfg)
                  (cfg_workspace_name cfg))) (\<lambda>ml_client.
     seq (py_print newline
            [''Workspace name: '' @ workspace_name ml_client,
             ''Subscription id: '' @ subscription_id ml_client,
             ''Resource group: '' @ resource_group_name ml_client]) (\<lambda>_.
     ret ml_client)))"

definition access_data :: "MLClient \<Rightarrow> string script" where
  "access_data ml_client =
     seq (emit (Begin Access_Data)) (\<lambda>_.
     seq (py_print '' '' [''data uri:'', newline, data_uri ml_client]) (\<lambda>_.
     ret (data_uri ml_client)))"

definition create_aml_compute :: "platform \<Rightarrow> AmlCompute script" where
  "create_aml_compute p =
     seq (emit (Begin Create_AML_Compute)) (\<lambda>_.
     try_except_MlException
       (seq (call (Compute_get gpu_compute_target) (compute_get p gpu_compute_target))
          (\<lambda>gpu_target.
        seq (py_print '' '' [''found compute target. Will use '' @ gpu_compute_target]) (\<lambda>_.
        ret gpu_target)))
       (seq (py_print '' '' [''Creating a new gpu compute target...'']) (\<lambda>_.
        seq (call (Compute_begin_create_or_update new_gpu_target)
               (compute_begin_create_or_update p new_gpu_target)) (\<lambda>_.
        seq (py_print '' ''
               [''AMLCompute with name '' @ compute_name new_gpu_target
                @ '' is created, the compute size is '' @ compute_size new_gpu_target]) (\<lambda>_.
        ret new_gpu_target)))))"

definition prepare_training_script :: "unit script" where
  "prepare_training_script = emit (Begin Prepare_Training_Script)"

definition create_experiment :: "unit script" where
  "create_experiment = emit (Begin Create_Experiment)"

definition setup_environment :: "config \<Rightarrow> platform \<Rightarrow> string script" where
  "setup_environment cfg p =
     seq (emit (Begin Setup_Environment)) (\<lambda>_.
     call (Environments_create_or_update (env_docker_image (getcwd cfg)))
       (environments_create_or_update p (env_docker_image (getcwd cfg))))"

text \<open>
  The cell leaves two variables to the later cells: the job, which the submission has
  rewritten in place, and the returned job.
\<close>

definition submit_training_job :: "config \<Rightarrow> platform \<Rightarrow> string \<Rightarrow> (Command \<times> Job) script" where
  "submit_training_job cfg p uri =
     seq (emit (Begin Submit_Training_Job)) (\<lambda>_.
     seq (call (Jobs_create_or_update (command_job (getcwd cfg) uri))
            (jobs_create_or_update p (command_job (getcwd cfg) uri))) (\<lambda>(ids, returned_job).
     ret (rewritten (command_job (getcwd cfg) uri) ids, returned_job)))"

definition start_hyperparameter_sweep :: "Command \<Rightarrow> Sweep script" where
  "start_hyperparameter_sweep job =
     seq (emit (Begin Start_Hyperparameter_Sweep)) (\<lambda>_.
     ret (sweep_job job))"

definition submit_sweep :: "platform \<Rightarrow> Sweep \<Rightarrow> Job script" where
  "submit_sweep p s =
     seq (emit (Begin Submit_Sweep)) (\<lambda>_.
     call (Create_or_update s) (create_or_update p s))"

definition monitor_sweepjobs :: "Job \<Rightarrow> unit script" where
  "monitor_sweepjobs returned_sweep_job =
     seq (emit (Begin Monitor_SweepJobs)) (\<lambda>_.
     py_print '' '' [''Monitor your job at'', studio_url returned_sweep_job])"

definition download_best_model :: "platform \<Rightarrow> Job \<Rightarrow> unit script" where
  "download_best_model p returned_sweep_job =
     seq (emit (Begin Download_Best_Model)) (\<lambda>_.
     call (Jobs_download (job_name returned_sweep_job) ''model'')
       (jobs_download p (job_name returned_sweep_job) ''model''))"

definition delete_cluster :: "platform \<Rightarrow> unit script" where
  "delete_cluster p =
     seq (emit (Begin Delete_Cluster)) (\<lambda>_.
     call (Compute_begin_delete gpu_compute_target) (compute_begin_delete p gpu_compute_target))"

text \<open>The notebook, run from the first cell to the last; an exception ends the run.\<close>

definition notebook :: "config \<Rightarrow> platform \<Rightarrow> unit script" where
  "notebook cfg p =
     seq verify_sdk_version (\<lambda>_.
     seq (initialize_workspace cfg p) (\<lambda>ml_client.
     seq (access_data ml_client) (\<lambda>uri.
     seq (create_aml_compute p) (\<lambda>gpu_target.
     seq prepare_training_script (\<lambda>_.
     seq create_experiment (\<lambda>_.
     seq (setup_environment cfg p) (\<lambda>registered.
     seq (submit_training_job cfg p uri) (\<lambda>(job, returned_job).
     seq (start_hyperparameter_sweep job) (\<lambda>s.
     seq (submit_sweep p s) (\<lambda>returned_sweep_job.
     seq (monitor_sweepjobs returned_sweep_job) (\<lambda>_.
     seq (download_best_model p returned_sweep_job) (\<lambda>_.
     delete_cluster p))))))))))))"

definition run_log :: "config \<Rightarrow> platform \<Rightarrow> event list" where
  "run_log cfg p = fst (notebook cfg p [])"

text \<open>How the run ended: the exception nothing caught, or \<open>None\<close> after the last cell.\<close>

definition run_end :: "config \<Rightarrow> platform \<Rightarrow> py_exception option" where
  "run_end cfg p = raised (snd (notebook cfg p []))"

fun calls :: "event list \<Rightarrow> api_call list" where
  "calls [] = []"
| "calls (Call c # es) = c # calls es"
| "calls (e # es) = calls es"

fun cells :: "event list \<Rightarrow> cell list" where
  "cells [] = []"
| "cells (Begin c # es) = c # cells es"
| "cells (e # es) = cells es"

subsection \<open>What a run did, as seen from outside\<close>

text \<open>The log without the console: the cells entered and the API calls made.\<close>

fun steps :: "event list \<Rightarrow> event list" where
  "steps [] = []"
| "steps (Begin c # es) = Begin c # steps es"
| "steps (Call c # es) = Call c # steps es"
| "steps (e # es) = steps es"

definition notebook_cells :: "cell list" where
  "notebook_cells =
     [Verify_SDK_Version, Initialize_Workspace, Access_Data, Create_AML_Compute,
      Prepare_Training_Script, Create_Experiment, Setup_Environment, Submit_Training_Job,
      Start_Hyperparameter_Sweep, Submit_Sweep, Monitor_SweepJobs, Download_Best_Model,
      Delete_Cluster]"

definition workspace_call :: "config \<Rightarrow> api_call" where
  "workspace_call cfg =
     MLClient_init (cfg_subscription_id cfg) (cfg_resource_group_name cfg)
       (cfg_workspace_name cfg)"

definition workspace_answer :: "config \<Rightarrow> platform \<Rightarrow> MLClient outcome" where
  "workspace_answer cfg p =
     new_MLClient p (cfg_subscription_id cfg) (cfg_resource_group_name cfg)
       (cfg_workspace_name cfg)"

text \<open>The lookup raises an \<open>MlException\<close>: the \<open>except\<close> branch is taken.\<close>

definition lookup_raises_MlException :: "platform \<Rightarrow> bool" where
  "lookup_raises_MlException p =
     (case compute_get p gpu_compute_target of
        Inl (MlException k m) \<Rightarrow> True
      | Inl (OtherException k m) \<Rightarrow> False
      | Inr t \<Rightarrow> False)"

text \<open>
  The compute cell ends without an exception: the lookup returned, or it raised an
  \<open>MlException\<close> and the creation returned.
\<close>

definition compute_done :: "platform \<Rightarrow> bool" where
  "compute_done p =
     (case compute_get p gpu_compute_target of
        Inl (MlException k m) \<Rightarrow>
          (case compute_begin_create_or_update p new_gpu_target of
             Inl e \<Rightarrow> False
           | Inr u \<Rightarrow> True)
      | Inl (OtherException k m) \<Rightarrow> False
      | Inr t \<Rightarrow> True)"

text \<open>
  The steps of a run up to each API call. The cells after the compute cell are the same
  on both branches of the lookup; \<open>after_compute\<close> names them.
\<close>

definition after_compute :: "config \<Rightarrow> platform \<Rightarrow> string \<Rightarrow> unit script" where
  "after_compute cfg p uri =
     seq prepare_training_script (\<lambda>_.
     seq create_experiment (\<lambda>_.
     seq (setup_environment cfg p) (\<lambda>registered.
     seq (submit_training_job cfg p uri) (\<lambda>(job, returned_job).
     seq (start_hyperparameter_sweep job) (\<lambda>s.
     seq (submit_sweep p s) (\<lambda>returned_sweep_job.
     seq (monitor_sweepjobs returned_sweep_job) (\<lambda>_.
     seq (download_best_model p returned_sweep_job) (\<lambda>_.
     delete_cluster p))))))))"

definition steps_workspace :: "config \<Rightarrow> event list" where
  "steps_workspace cfg =
     [Begin Verify_SDK_Version, Begin Initialize_Workspace, Call (workspace_call cfg)]"

definition steps_lookup :: "config \<Rightarrow> event list" where
  "steps_lookup cfg =
     steps_workspace cfg
     @ [Begin Access_Data, Begin Create_AML_Compute, Call (Compute_get gpu_compute_target)]"

definition steps_create :: "config \<Rightarrow> event list" where
  "steps_create cfg =
     steps_lookup cfg @ [Call (Compute_begin_create_or_update new_gpu_target)]"

definition steps_compute :: "config \<Rightarrow> platform \<Rightarrow> event list" where
  "steps_compute cfg p = (if lookup_raises_MlException p then steps_create cfg else steps_lookup cfg)"

definition steps_environment :: "config \<Rightarrow> platform \<Rightarrow> event list" where
  "steps_environment cfg p =
     steps_compute cfg p
     @ [Begin Prepare_Training_Script, Begin Create_Experiment, Begin Setup_Environment,
        Call (Environments_create_or_update (env_docker_image (getcwd cfg)))]"

definition steps_training :: "config \<Rightarrow> platform \<Rightarrow> MLClient \<Rightarrow> event list" where
  "steps_training cfg p h =
     steps_environment cfg p
     @ [Begin Submit_Training_Job,
        Call (Jobs_create_or_update (command_job (getcwd cfg) (data_uri h)))]"

definition steps_sweep :: "config \<Rightarrow> platform \<Rightarrow> MLClient \<Rightarrow> resolved_ids \<Rightarrow> event list" where
  "steps_sweep cfg p h ids =
     steps_training cfg p h
     @ [Begin Start_Hyperparameter_Sweep, Begin Submit_Sweep,
        Call (Create_or_update (sweep_job (rewritten (command_job (getcwd cfg) (data_uri h)) ids)))]"

definition steps_download ::
  "config \<Rightarrow> platform \<Rightarrow> MLClient \<Rightarrow> resolved_ids \<Rightarrow> Job \<Rightarrow> event list" where
  "steps_download cfg p h ids returned_sweep_job =
     steps_sweep cfg p h ids
     @ [Begin Monitor_SweepJobs, Begin Download_Best_Model,
        Call (Jobs_download (job_name returned_sweep_job) ''model'')]"

definition steps_delete ::
  "config \<Rightarrow> platform \<Rightarrow> MLClient \<Rightarrow> resolved_ids \<Rightarrow> Job \<Rightarrow> event list" where
  "steps_delete cfg p h ids returned_sweep_job =
     steps_download cfg p h ids returned_sweep_job
     @ [Begin Delete_Cluster, Call (Compute_begin_delete gpu_compute_target)]"

subsection \<open>Notions the claims speak about\<close>






text \<open>
  The ten steps of the flow, as cells: workspace handle, dataset URI, get-or-create
  compute, container environment, training job, sweep definition, sweep submission,
  monitoring (the cell prints the job's studio URL), download, cluster deletion.
\<close>

definition flow :: "cell list" where
  "flow =
     [Initialize_Workspace, Access_Data, Create_AML_Compute, Setup_Environment,
      Submit_Training_Job, Start_Hyperparameter_Sweep, Submit_Sweep, Monitor_SweepJobs,
      Download_Best_Model, Delete_Cluster]"

text \<open>The cell whose code makes an API call.\<close>

fun step_of :: "api_call \<Rightarrow> cell" where
  "step_of (MLClient_init s r w) = Initialize_Workspace"
| "step_of (Compute_get n) = Create_AML_Compute"
| "step_of (Compute_begin_create_or_update c) = Create_AML_Compute"
| "step_of (Environments_create_or_update e) = Setup_Environment"
| "step_of (Jobs_create_or_update j) = Submit_Training_Job"
| "step_of (Create_or_update s) = Submit_Sweep"
| "step_of (Jobs_download n out) = Download_Best_Model"
| "step_of (Compute_begin_delete n) = Delete_Cluster"

definition api_flow :: "cell list" where
  "api_flow =
     [Initialize_Workspace, Create_AML_Compute, Setup_Environment, Submit_Training_Job,
      Submit_Sweep, Download_Best_Model, Delete_Cluster]"

text \<open>
  The API calls whose arguments are fixed by the script's literals, the working directory
  and the fields of the workspace handle. The submission of the sweep and the download
  are not among them.
\<close>

definition configured_calls :: "config \<Rightarrow> MLClient \<Rightarrow> api_call list" where
  "configured_calls cfg h =
     [Compute_get gpu_compute_target,
      Compute_begin_create_or_update new_gpu_target,
      Environments_create_or_update (env_docker_image (getcwd cfg)),
      Jobs_create_or_update (command_job (getcwd cfg) (data_uri h)),
      Compute_begin_delete gpu_compute_target]"

text \<open>The calls that submit a job to the service.\<close>

fun is_submission :: "api_call \<Rightarrow> bool" where
  "is_submission (Jobs_create_or_update j) = True"
| "is_submission (Create_or_update s) = True"
| "is_submission c = False"

fun is_sweep_submission :: "api_call \<Rightarrow> bool" where
  "is_sweep_submission (Create_or_update s) = True"
| "is_sweep_submission c = False"

subsection \<open>The run recorded in the notebook's cell outputs\<close>

text \<open>
  The outputs stored in the file show one run: the workspace \<open>rapids-aml-cluster\<close>, the
  cluster found, the environment registered as version 10, and the two returned jobs.
  The platform of that run (the studio URLs shortened, the cluster found taken to have
  the shape of the one the script would create, the resolved identifiers of the shape
  the service gives), and the same platform with no cluster yet.
\<close>

definition recorded_config :: config where
  "recorded_config =
     \<lparr>cfg_subscription_id = ''fc4f4a6b-4041-4b1c-8249-854d68edcf62'',
      cfg_resource_group_name = ''rapidsai-deployment'',
      cfg_workspace_name = ''rapids-aml-cluster'',
      getcwd = ''/mnt/batch/tasks/shared/LS_root/mounts/clusters/skirui1/code''\<rparr>"

definition recorded_handle :: MLClient where
  "recorded_handle =
     \<lparr>subscription_id = ''fc4f4a6b-4041-4b1c-8249-854d68edcf62'',
      resource_group_name = ''rapidsai-deployment'',
      workspace_name = ''rapids-aml-cluster''\<rparr>"

definition recorded_job :: Job where
  "recorded_job =
     \<lparr>job_name = ''zen_eye_lm7dcp68jz'',
      studio_url = ''https://ml.azure.com/runs/zen_eye_lm7dcp68jz''\<rparr>"

definition recorded_ids :: resolved_ids where
  "recorded_ids =
     \<lparr>resolved_code = ''azureml:/subscriptions/fc4f4a6b-4041-4b1c-8249-854d68edcf62''
        @ ''/resourceGroups/rapidsai-deployment/providers/Microsoft.MachineLearningServices''
        @ ''/workspaces/rapids-aml-cluster/codes/5a6e0c4e/versions/1'',
      resolved_environment = ''azureml:/subscriptions/fc4f4a6b-4041-4b1c-8249-854d68edcf62''
        @ ''/resourceGroups/rapidsai-deployment/providers/Microsoft.MachineLearningServices''
        @ ''/workspaces/rapids-aml-cluster/environments/rapids-mlflow/versions/1'',
      resolved_compute = ''/subscriptions/fc4f4a6b-4041-4b1c-8249-854d68edcf62''
        @ ''/resourceGroups/rapidsai-deployment/providers/Microsoft.MachineLearningServices''
        @ ''/workspaces/rapids-aml-cluster/computes/rapids-cluster''\<rparr>"

definition recorded_sweep_job :: Job where
  "recorded_sweep_job =
     \<lparr>job_name = ''eager_turtle_r7fs2xzcty'',
      studio_url = ''https://ml.azure.com/runs/eager_turtle_r7fs2xzcty''\<rparr>"

definition recorded_platform :: platform where
  "recorded_platform =
     \<lparr>new_MLClient = (\<lambda>s r w.
        Inr \<lparr>subscription_id = s, resource_group_name = r, workspace_name = w\<rparr>),
      compute_get = (\<lambda>n. Inr new_gpu_target),
      compute_begin_create_or_update = (\<lambda>c. Inr ()),
      environments_create_or_update = (\<lambda>e. Inr ''10''),
      jobs_create_or_update = (\<lambda>j. Inr (recorded_ids, recorded_job)),
      create_or_update = (\<lambda>s. Inr recorded_sweep_job),
      jobs_download = (\<lambda>n out. Inr ()),
      compute_begin_delete = (\<lambda>n. Inr ())\<rparr>"

definition platform_without_cluster :: platform where
  "platform_without_cluster =
     recorded_platform\<lparr>compute_get := (\<lambda>n. Inl (MlException Not_found ''ComputeNotFound''))\<rparr>"



text \<open>
  The recorded platform, returning another name for the sweep job; and the recorded
  configuration, run from another directory.
\<close>

definition platform_other_job_name :: platform where
  "platform_other_job_name =
     recorded_platform\<lparr>create_or_update := (\<lambda>s.
        Inr \<lparr>job_name = ''happy_otter_x1'',
             studio_url = ''https://ml.azure.com/runs/happy_otter_x1''\<rparr>)\<rparr>"

definition config_elsewhere :: config where
  "config_elsewhere = recorded_config\<lparr>getcwd := ''/home/azureuser''\<rparr>"

section \<open>Symbolic execution of the notebook\<close>

lemma seq_emit: "seq (emit e) f tr = f () (tr @ [e])"
  by (simp add: seq_def emit_def)

lemma seq_print: "seq (py_print sep args) f tr = f () (tr @ [Print (str_join sep args @ newline)])"
  by (simp add: py_print_def seq_emit)

lemma seq_ret: "seq (ret v) f tr = f v tr"
  by (simp add: seq_def ret_def)

lemma seq_call_Inr: "a = Inr v \<Longrightarrow> seq (call c a) f tr = f v (tr @ [Call c])"
  by (simp add: seq_def call_def)

lemma seq_call_Inl: "a = Inl e \<Longrightarrow> seq (call c a) f tr = (tr @ [Call c], Inl e)"
  by (simp add: seq_def call_def)

lemma seq_assoc: "seq (seq m f) g = seq m (\<lambda>v. seq (f v) g)"
  by (rule ext) (simp add: seq_def split: prod.splits sum.splits)

lemma steps_append: "steps (xs @ ys) = steps xs @ steps ys"
  by (induction xs rule: steps.induct) simp_all

lemma cells_steps: "cells (steps tr) = cells tr"
  by (induction tr rule: steps.induct) simp_all

lemma calls_steps: "calls (steps tr) = calls tr"
  by (induction tr rule: steps.induct) simp_all

lemmas tail_defs = after_compute_def
  prepare_training_script_def create_experiment_def setup_environment_def
  submit_training_job_def start_hyperparameter_sweep_def submit_sweep_def
  monitor_sweepjobs_def download_best_model_def delete_cluster_def
  seq_assoc seq_emit seq_print seq_ret

lemmas head_defs = notebook_def verify_sdk_version_def initialize_workspace_def
  access_data_def create_aml_compute_def workspace_answer_def workspace_call_def
  seq_assoc seq_emit seq_print seq_ret

text \<open>The cells after the compute cell, for each place where the platform can raise.\<close>

lemma tail_environment_failed:
  assumes "environments_create_or_update p (env_docker_image (getcwd cfg)) = Inl e"
  shows "\<exists>evs. after_compute cfg p uri tr = (tr @ evs, Inl e) \<and>
           steps evs = [Begin Prepare_Training_Script, Begin Create_Experiment,
             Begin Setup_Environment,
             Call (Environments_create_or_update (env_docker_image (getcwd cfg)))]"
  using assms by (simp add: tail_defs seq_call_Inl call_def)

lemma tail_training_failed:
  assumes "environments_create_or_update p (env_docker_image (getcwd cfg)) = Inr v"
    and "jobs_create_or_update p (command_job (getcwd cfg) uri) = Inl e"
  shows "\<exists>evs. after_compute cfg p uri tr = (tr @ evs, Inl e) \<and>
           steps evs = [Begin Prepare_Training_Script, Begin Create_Experiment,
             Begin Setup_Environment,
             Call (Environments_create_or_update (env_docker_image (getcwd cfg))),
             Begin Submit_Training_Job,
             Call (Jobs_create_or_update (command_job (getcwd cfg) uri))]"
  using assms by (simp add: tail_defs seq_call_Inl seq_call_Inr call_def)

lemma tail_sweep_failed:
  assumes "environments_create_or_update p (env_docker_image (getcwd cfg)) = Inr v"
    and "jobs_create_or_update p (command_job (getcwd cfg) uri) = Inr (ids, j)"
    and "create_or_update p (sweep_job (rewritten (command_job (getcwd cfg) uri) ids)) = Inl e"
  shows "\<exists>evs. after_compute cfg p uri tr = (tr @ evs, Inl e) \<and>
           steps evs = [Begin Prepare_Training_Script, Begin Create_Experiment,
             Begin Setup_Environment,
             Call (Environments_create_or_update (env_docker_image (getcwd cfg))),
             Begin Submit_Training_Job,
             Call (Jobs_create_or_update (command_job (getcwd cfg) uri)),
             Begin Start_Hyperparameter_Sweep, Begin Submit_Sweep,
             Call (Create_or_update (sweep_job (rewritten (command_job (getcwd cfg) uri) ids)))]"
  using assms by (simp add: tail_defs seq_call_Inl seq_call_Inr call_def)

lemma tail_download_failed:
  assumes "environments_create_or_update p (env_docker_image (getcwd cfg)) = Inr v"
    and "jobs_create_or_update p (command_job (getcwd cfg) uri) = Inr (ids, j)"
    and "create_or_update p (sweep_job (rewritten (command_job (getcwd cfg) uri) ids)) = Inr sj"
    and "jobs_download p (job_name sj) ''model'' = Inl e"
  shows "\<exists>evs. after_compute cfg p uri tr = (tr @ evs, Inl e) \<and>
           steps evs = [Begin Prepare_Training_Script, Begin Create_Experiment,
             Begin Setup_Environment,
             Call (Environments_create_or_update (env_docker_image (getcwd cfg))),
             Begin Submit_Training_Job,
             Call (Jobs_create_or_update (command_job (getcwd cfg) uri)),
             Begin Start_Hyperparameter_Sweep, Begin Submit_Sweep,
             Call (Create_or_update (sweep_job (rewritten (command_job (getcwd cfg) uri) ids))),
             Begin Monitor_SweepJobs, Begin Download_Best_Model,
             Call (Jobs_download (job_name sj) ''model'')]"
  using assms by (simp add: tail_defs seq_call_Inl seq_call_Inr call_def)

lemma tail_delete:
  assumes "environments_create_or_update p (env_docker_image (getcwd cfg)) = Inr v"
    and "jobs_create_or_update p (command_job (getcwd cfg) uri) = Inr (ids, j)"
    and "create_or_update p (sweep_job (rewritten (command_job (getcwd cfg) uri) ids)) = Inr sj"
    and "jobs_download p (job_name sj) ''model'' = Inr u"
  shows "\<exists>evs. after_compute cfg p uri tr =
             (tr @ evs, compute_begin_delete p gpu_compute_target) \<and>
           steps evs = [Begin Prepare_Training_Script, Begin Create_Experiment,
             Begin Setup_Environment,
             Call (Environments_create_or_update (env_docker_image (getcwd cfg))),
             Begin Submit_Training_Job,
             Call (Jobs_create_or_update (command_job (getcwd cfg) uri)),
             Begin Start_Hyperparameter_Sweep, Begin Submit_Sweep,
             Call (Create_or_update (sweep_job (rewritten (command_job (getcwd cfg) uri) ids))),
             Begin Monitor_SweepJobs, Begin Download_Best_Model,
             Call (Jobs_download (job_name sj) ''model''),
             Begin Delete_Cluster, Call (Compute_begin_delete gpu_compute_target)]"
  using assms by (simp add: tail_defs seq_call_Inl seq_call_Inr call_def)

text \<open>The cells up to the compute cell.\<close>

lemma head_workspace_failed:
  assumes "workspace_answer cfg p = Inl e"
  shows "\<exists>evs. notebook cfg p [] = (evs, Inl e) \<and> steps evs = steps_workspace cfg"
  using assms by (simp add: head_defs seq_call_Inl steps_workspace_def)

lemma head_lookup_failed:
  assumes "workspace_answer cfg p = Inr h"
    and "compute_get p gpu_compute_target = Inl (OtherException k m)"
  shows "\<exists>evs. notebook cfg p [] = (evs, Inl (OtherException k m)) \<and>
           steps evs = steps_lookup cfg"
  using assms
  by (simp add: head_defs seq_call_Inr seq_def [of "try_except_MlException _ _"]
      try_except_MlException_def seq_call_Inl steps_lookup_def steps_workspace_def)

lemma head_create_failed:
  assumes "workspace_answer cfg p = Inr h"
    and "compute_get p gpu_compute_target = Inl (MlException k m)"
    and "compute_begin_create_or_update p new_gpu_target = Inl e"
  shows "\<exists>evs. notebook cfg p [] = (evs, Inl e) \<and> steps evs = steps_create cfg"
  using assms
  by (simp add: head_defs seq_call_Inr seq_def [of "try_except_MlException _ _"]
      try_except_MlException_def seq_call_Inl steps_create_def steps_lookup_def
      steps_workspace_def)

lemma head_created:
  assumes "workspace_answer cfg p = Inr h"
    and "compute_get p gpu_compute_target = Inl (MlException k m)"
    and "compute_begin_create_or_update p new_gpu_target = Inr u"
  shows "\<exists>evs. notebook cfg p [] = after_compute cfg p (data_uri h) evs \<and>
           steps evs = steps_create cfg"
  using assms
  apply (simp add: head_defs seq_call_Inr seq_def [of "try_except_MlException _ _"]
      try_except_MlException_def seq_call_Inl after_compute_def ret_def)
  apply (rule exI, rule conjI, rule refl)
  apply (simp add: steps_create_def steps_lookup_def steps_workspace_def workspace_call_def)
  done

lemma head_found:
  assumes "workspace_answer cfg p = Inr h"
    and "compute_get p gpu_compute_target = Inr t"
  shows "\<exists>evs. notebook cfg p [] = after_compute cfg p (data_uri h) evs \<and>
           steps evs = steps_lookup cfg"
  using assms
  apply (simp add: head_defs seq_call_Inr seq_def [of "try_except_MlException _ _"]
      try_except_MlException_def seq_call_Inl after_compute_def ret_def)
  apply (rule exI, rule conjI, rule refl)
  apply (simp add: steps_lookup_def steps_workspace_def workspace_call_def)
  done

text \<open>
  Every run is one of nine: it ends at the first API call that raises an exception the
  script does not catch, or after the last cell.
\<close>

lemma run_cases [case_names workspace_failed lookup_failed create_failed
    environment_failed training_failed sweep_failed download_failed delete_failed completed]:
  obtains
    (workspace_failed) e where
      "workspace_answer cfg p = Inl e"
      "steps (run_log cfg p) = steps_workspace cfg"
      "run_end cfg p = Some e"
  | (lookup_failed) h k m where
      "workspace_answer cfg p = Inr h"
      "compute_get p gpu_compute_target = Inl (OtherException k m)"
      "steps (run_log cfg p) = steps_lookup cfg"
      "run_end cfg p = Some (OtherException k m)"
  | (create_failed) h k m e where
      "workspace_answer cfg p = Inr h"
      "compute_get p gpu_compute_target = Inl (MlException k m)"
      "compute_begin_create_or_update p new_gpu_target = Inl e"
      "steps (run_log cfg p) = steps_create cfg"
      "run_end cfg p = Some e"
  | (environment_failed) h e where
      "workspace_answer cfg p = Inr h"
      "compute_done p"
      "environments_create_or_update p (env_docker_image (getcwd cfg)) = Inl e"
      "steps (run_log cfg p) = steps_environment cfg p"
      "run_end cfg p = Some e"
  | (training_failed) h v e where
      "workspace_answer cfg p = Inr h"
      "compute_done p"
      "environments_create_or_update p (env_docker_image (getcwd cfg)) = Inr v"
      "jobs_create_or_update p (command_job (getcwd cfg) (data_uri h)) = Inl e"
      "steps (run_log cfg p) = steps_training cfg p h"
      "run_end cfg p = Some e"
  | (sweep_failed) h v ids j e where
      "workspace_answer cfg p = Inr h"
      "compute_done p"
      "environments_create_or_update p (env_docker_image (getcwd cfg)) = Inr v"
      "jobs_create_or_update p (command_job (getcwd cfg) (data_uri h)) = Inr (ids, j)"
      "create_or_update p (sweep_job (rewritten (command_job (getcwd cfg) (data_uri h)) ids)) = Inl e"
      "steps (run_log cfg p) = steps_sweep cfg p h ids"
      "run_end cfg p = Some e"
  | (download_failed) h v ids j sj e where
      "workspace_answer cfg p = Inr h"
      "compute_done p"
      "environments_create_or_update p (env_docker_image (getcwd cfg)) = Inr v"
      "jobs_create_or_update p (command_job (getcwd cfg) (data_uri h)) = Inr (ids, j)"
      "create_or_update p (sweep_job (rewritten (command_job (getcwd cfg) (data_uri h)) ids)) = Inr sj"
      "jobs_download p (job_name sj) ''model'' = Inl e"
      "steps (run_log cfg p) = steps_download cfg p h ids sj"
      "run_end cfg p = Some e"
  | (delete_failed) h v ids j sj e where
      "workspace_answer cfg p = Inr h"
      "compute_done p"
      "environments_create_or_update p (env_docker_image (getcwd cfg)) = Inr v"
      "jobs_create_or_update p (command_job (getcwd cfg) (data_uri h)) = Inr (ids, j)"
      "create_or_update p (sweep_job (rewritten (command_job (getcwd cfg) (data_uri h)) ids)) = Inr sj"
      "jobs_download p (job_name sj) ''model'' = Inr ()"
      "compute_begin_delete p gpu_compute_target = Inl e"
      "steps (run_log cfg p) = steps_delete cfg p h ids sj"
      "run_end cfg p = Some e"
  | (completed) h v ids j sj where
      "workspace_answer cfg p = Inr h"
      "compute_done p"
      "environments_create_or_update p (env_docker_image (getcwd cfg)) = Inr v"
      "jobs_create_or_update p (command_job (getcwd cfg) (data_uri h)) = Inr (ids, j)"
      "create_or_update p (sweep_job (rewritten (command_job (getcwd cfg) (data_uri h)) ids)) = Inr sj"
      "jobs_download p (job_name sj) ''model'' = Inr ()"
      "compute_begin_delete p gpu_compute_target = Inr ()"
      "steps (run_log cfg p) = steps_delete cfg p h ids sj"
      "run_end cfg p = None"
proof (cases "workspace_answer cfg p")
  case (Inl e)
  from head_workspace_failed [OF Inl] obtain evs
    where "notebook cfg p [] = (evs, Inl e)" "steps evs = steps_workspace cfg"
    by blast
  then have "steps (run_log cfg p) = steps_workspace cfg" "run_end cfg p = Some e"
    by (simp_all add: run_log_def run_end_def)
  with Inl workspace_failed show thesis
    by blast
next
  case (Inr h)
  note ws = Inr
  have tail: thesis
    if nb: "notebook cfg p [] = after_compute cfg p (data_uri h) evs0"
      and st: "steps evs0 = steps_compute cfg p"
      and cd: "compute_done p"
    for evs0
  proof (cases "environments_create_or_update p (env_docker_image (getcwd cfg))")
    case (Inl e)
    from tail_environment_failed [OF Inl, of "data_uri h" evs0] nb st
    have "steps (run_log cfg p) = steps_environment cfg p" "run_end cfg p = Some e"
      by (auto simp add: run_log_def run_end_def steps_append steps_environment_def)
    with ws cd Inl environment_failed show thesis
      by blast
  next
    case (Inr v)
    note env = Inr
    show thesis
    proof (cases "jobs_create_or_update p (command_job (getcwd cfg) (data_uri h))")
      case (Inl e)
      from tail_training_failed [OF env Inl, of evs0] nb st
      have "steps (run_log cfg p) = steps_training cfg p h" "run_end cfg p = Some e"
        by (auto simp add: run_log_def run_end_def steps_append steps_environment_def
            steps_training_def)
      with ws cd env Inl training_failed show thesis
        by blast
    next
      case (Inr r)
      obtain ids j where "r = (ids, j)"
        by (cases r)
      with Inr have job:
        "jobs_create_or_update p (command_job (getcwd cfg) (data_uri h)) = Inr (ids, j)"
        by simp
      show thesis
      proof (cases "create_or_update p (sweep_job (rewritten (command_job (getcwd cfg) (data_uri h)) ids))")
        case (Inl e)
        from tail_sweep_failed [OF env job Inl, of evs0] nb st
        have "steps (run_log cfg p) = steps_sweep cfg p h ids" "run_end cfg p = Some e"
          by (auto simp add: run_log_def run_end_def steps_append steps_environment_def
              steps_training_def steps_sweep_def)
        with ws cd env job Inl sweep_failed show thesis
          by blast
      next
        case (Inr sj)
        note sw = Inr
        show thesis
        proof (cases "jobs_download p (job_name sj) ''model''")
          case (Inl e)
          from tail_download_failed [OF env job sw Inl, of evs0] nb st
          have "steps (run_log cfg p) = steps_download cfg p h ids sj" "run_end cfg p = Some e"
            by (auto simp add: run_log_def run_end_def steps_append steps_environment_def
                steps_training_def steps_sweep_def steps_download_def)
          with ws cd env job sw Inl download_failed show thesis
            by blast
        next
          case (Inr u)
          then have dl: "jobs_download p (job_name sj) ''model'' = Inr ()"
            by simp
          from tail_delete [OF env job sw dl, of evs0] nb st
          have log: "steps (run_log cfg p) = steps_delete cfg p h ids sj"
            and res: "run_end cfg p = raised (compute_begin_delete p gpu_compute_target)"
            by (auto simp add: run_log_def run_end_def steps_append steps_environment_def
                steps_training_def steps_sweep_def steps_download_def steps_delete_def)
          show thesis
          proof (cases "compute_begin_delete p gpu_compute_target")
            case (Inl e)
            with ws cd env job sw dl log res delete_failed show thesis
              by simp
          next
            case (Inr u')
            then have "compute_begin_delete p gpu_compute_target = Inr ()"
              by simp
            with ws cd env job sw dl log res completed show thesis
              by simp
          qed
        qed
      qed
    qed
  qed
  show thesis
  proof (cases "compute_get p gpu_compute_target")
    case (Inl ex)
    show thesis
    proof (cases ex)
      case (MlException k m)
      with Inl have nf: "compute_get p gpu_compute_target = Inl (MlException k m)"
        by simp
      show thesis
      proof (cases "compute_begin_create_or_update p new_gpu_target")
        case (Inl e)
        from head_create_failed [OF ws nf Inl] obtain evs
          where "notebook cfg p [] = (evs, Inl e)" "steps evs = steps_create cfg"
          by blast
        then have "steps (run_log cfg p) = steps_create cfg" "run_end cfg p = Some e"
          by (simp_all add: run_log_def run_end_def)
        with ws nf Inl create_failed show thesis
          by blast
      next
        case (Inr u)
        from head_created [OF ws nf Inr] obtain evs0
          where "notebook cfg p [] = after_compute cfg p (data_uri h) evs0"
            "steps evs0 = steps_create cfg"
          by blast
        moreover from nf Inr have "compute_done p" "lookup_raises_MlException p"
          by (simp_all add: compute_done_def lookup_raises_MlException_def)
        ultimately show thesis
          using tail [of evs0] by (simp add: steps_compute_def)
      qed
    next
      case (OtherException k m)
      with Inl have oe: "compute_get p gpu_compute_target = Inl (OtherException k m)"
        by simp
      from head_lookup_failed [OF ws oe] obtain evs
        where "notebook cfg p [] = (evs, Inl (OtherException k m))" "steps evs = steps_lookup cfg"
        by blast
      then have "steps (run_log cfg p) = steps_lookup cfg"
        "run_end cfg p = Some (OtherException k m)"
        by (simp_all add: run_log_def run_end_def)
      with ws oe lookup_failed show thesis
        by blast
    qed
  next
    case (Inr t)
    from head_found [OF ws Inr] obtain evs0
      where "notebook cfg p [] = after_compute cfg p (data_uri h) evs0"
        "steps evs0 = steps_lookup cfg"
      by blast
    moreover from Inr have "compute_done p" "\<not> lookup_raises_MlException p"
      by (simp_all add: compute_done_def lookup_raises_MlException_def)
    ultimately show thesis
      using tail [of evs0] by (simp add: steps_compute_def)
  qed
qed

lemma run_calls: "calls (run_log cfg p) = calls (steps (run_log cfg p))"
  by (simp add: calls_steps)

lemma run_cells: "cells (run_log cfg p) = cells (steps (run_log cfg p))"
  by (simp add: cells_steps)

lemmas steps_defs = steps_workspace_def steps_lookup_def steps_create_def steps_compute_def
  steps_environment_def steps_training_def steps_sweep_def steps_download_def
  steps_delete_def workspace_call_def

lemma recorded_answers:
  "workspace_answer recorded_config recorded_platform = Inr recorded_handle"
  "compute_get recorded_platform n = Inr new_gpu_target"
  "environments_create_or_update recorded_platform env = Inr ''10''"
  "jobs_create_or_update recorded_platform job = Inr (recorded_ids, recorded_job)"
  "create_or_update recorded_platform s = Inr recorded_sweep_job"
  "jobs_download recorded_platform n out = Inr ()"
  "compute_begin_delete recorded_platform n = Inr ()"
  by (simp_all add: workspace_answer_def recorded_config_def recorded_platform_def
      recorded_handle_def)

lemma recorded_run:
  "steps (run_log recorded_config recorded_platform) =
     steps_delete recorded_config recorded_platform recorded_handle recorded_ids recorded_sweep_job"
  "run_end recorded_config recorded_platform = None"
  by (cases rule: run_cases [of recorded_config recorded_platform];
      simp add: recorded_answers)+

lemma without_cluster_answers:
  "workspace_answer recorded_config platform_without_cluster = Inr recorded_handle"
  "compute_get platform_without_cluster n = Inl (MlException Not_found ''ComputeNotFound'')"
  "compute_begin_create_or_update platform_without_cluster c = Inr ()"
  "environments_create_or_update platform_without_cluster env = Inr ''10''"
  "jobs_create_or_update platform_without_cluster job = Inr (recorded_ids, recorded_job)"
  "create_or_update platform_without_cluster s = Inr recorded_sweep_job"
  "jobs_download platform_without_cluster n out = Inr ()"
  "compute_begin_delete platform_without_cluster n = Inr ()"
  by (simp_all add: workspace_answer_def recorded_config_def recorded_platform_def
      recorded_handle_def platform_without_cluster_def)

lemma without_cluster_run:
  "steps (run_log recorded_config platform_without_cluster) =
     steps_delete recorded_config platform_without_cluster recorded_handle recorded_ids recorded_sweep_job"
  "run_end recorded_config platform_without_cluster = None"
  by (cases rule: run_cases [of recorded_config platform_without_cluster];
      simp add: without_cluster_answers)+





lemma other_job_name_answers:
  "workspace_answer recorded_config platform_other_job_name = Inr recorded_handle"
  "compute_get platform_other_job_name n = Inr new_gpu_target"
  "environments_create_or_update platform_other_job_name env = Inr ''10''"
  "jobs_create_or_update platform_other_job_name job = Inr (recorded_ids, recorded_job)"
  "create_or_update platform_other_job_name s =
     Inr \<lparr>job_name = ''happy_otter_x1'',
          studio_url = ''https://ml.azure.com/runs/happy_otter_x1''\<rparr>"
  "jobs_download platform_other_job_name n out = Inr ()"
  "compute_begin_delete platform_other_job_name n = Inr ()"
  by (simp_all add: workspace_answer_def recorded_config_def recorded_platform_def
      recorded_handle_def platform_other_job_name_def)

lemma other_job_name_run:
  "steps (run_log recorded_config platform_other_job_name) =
     steps_delete recorded_config platform_other_job_name recorded_handle recorded_ids
       \<lparr>job_name = ''happy_otter_x1'',
        studio_url = ''https://ml.azure.com/runs/happy_otter_x1''\<rparr>"
  "run_end recorded_config platform_other_job_name = None"
  by (cases rule: run_cases [of recorded_config platform_other_job_name];
      simp add: other_job_name_answers)+

lemma elsewhere_answer:
  "workspace_answer config_elsewhere recorded_platform = Inr recorded_handle"
  by (simp add: workspace_answer_def recorded_config_def recorded_platform_def
      recorded_handle_def config_elsewhere_def)

lemma elsewhere_run:
  "steps (run_log config_elsewhere recorded_platform) =
     steps_delete config_elsewhere recorded_platform recorded_handle recorded_ids recorded_sweep_job"
  "run_end config_elsewhere recorded_platform = None"
  by (cases rule: run_cases [of config_elsewhere recorded_platform];
      simp add: recorded_answers elsewhere_answer)+

text \<open>The recorded run from the monitoring cell on, console output included.\<close>

lemma recorded_monitoring:
  "dropWhile (\<lambda>e. e \<noteq> Begin Monitor_SweepJobs) (run_log recorded_config recorded_platform) =
     [Begin Monitor_SweepJobs,
      Print (''Monitor your job at https://ml.azure.com/runs/eager_turtle_r7fs2xzcty''
             @ newline),
      Begin Download_Best_Model,
      Call (Jobs_download ''eager_turtle_r7fs2xzcty'' ''model''),
      Begin Delete_Cluster,
      Call (Compute_begin_delete gpu_compute_target)]"
proof -
  from head_found [of recorded_config recorded_platform recorded_handle new_gpu_target]
  obtain evs0 where nb: "notebook recorded_config recorded_platform [] =
      after_compute recorded_config recorded_platform (data_uri recorded_handle) evs0"
    and st: "steps evs0 = steps_lookup recorded_config"
    by (auto simp add: recorded_answers)
  have "Begin Monitor_SweepJobs \<notin> set (steps evs0)"
    unfolding st by (simp add: steps_defs)
  then have no: "Begin Monitor_SweepJobs \<notin> set evs0"
    by (induction evs0 rule: steps.induct) auto
  then have "dropWhile (\<lambda>e. e \<noteq> Begin Monitor_SweepJobs) evs0 = []"
    by (induction evs0) auto
  then show ?thesis
    unfolding run_log_def nb
    by (simp add: tail_defs seq_call_Inr recorded_answers call_def dropWhile_append
        recorded_sweep_job_def)
qed

text \<open>What a run submits, whenever it submits.\<close>

lemma submitted_training_job:
  assumes "Jobs_create_or_update j \<in> set (calls (run_log cfg p))"
  shows "\<exists>h. workspace_answer cfg p = Inr h \<and> j = command_job (getcwd cfg) (data_uri h)"
  using assms unfolding run_calls
  by (cases rule: run_cases [of cfg p]) (auto simp add: steps_defs split: if_splits)

lemma submitted_sweep_job:
  assumes "Create_or_update s \<in> set (calls (run_log cfg p))"
  shows "\<exists>h ids j. workspace_answer cfg p = Inr h
           \<and> jobs_create_or_update p (command_job (getcwd cfg) (data_uri h)) = Inr (ids, j)
           \<and> s = sweep_job (rewritten (command_job (getcwd cfg) (data_uri h)) ids)"
  using assms unfolding run_calls
  by (cases rule: run_cases [of cfg p]) (auto simp add: steps_defs split: if_splits)

lemma set_py_range: "set (py_range a b) = {a..b - 1}"
  by (simp add: py_range_def)

lemma distinct_py_range: "distinct (py_range a b)"
  by (simp add: py_range_def)

lemma command_job_inputs:
  "job_inputs (command_job cwd uri) =
     [(''data_dir'', Input ''uri_file'' uri), (''n_bins'', Int_literal 32),
      (''compute'', Str_literal ''single-GPU''), (''cv_folds'', Int_literal 5),
      (''n_estimators'', Int_literal 100), (''max_depth'', Int_literal 6),
      (''max_features'', Float_literal 0.3)]"
  by (simp add: command_job_def)

lemma rewritten_inputs: "job_inputs (rewritten job ids) = job_inputs job"
  by (simp add: rewritten_def)

lemma sweep_trial_inputs:
  assumes "job_inputs job = job_inputs (command_job cwd uri)"
  shows "job_inputs (trial (sweep_job job)) =
     [(''data_dir'', Input ''uri_file'' uri), (''n_bins'', Int_literal 32),
      (''compute'', Str_literal ''single-GPU''), (''cv_folds'', Int_literal 5),
      (''n_estimators'', Choice (py_range 50 500)), (''max_depth'', Choice (py_range 5 19)),
      (''max_features'', Uniform 0.2 1.0)]"
  using assms
  by (simp add: sweep_job_def set_limits_def sweep_def command_job_for_sweep_def
      command_call_def command_job_inputs)

lemma sweep_trial_fields:
  "job_command (trial (sweep_job job)) = job_command job"
  "job_code (trial (sweep_job job)) = job_code job"
  "job_environment (trial (sweep_job job)) = job_environment job"
  "job_compute (trial (sweep_job job)) = job_compute job"
  "job_experiment_name (trial (sweep_job job)) = None"
  by (simp_all add: sweep_job_def set_limits_def sweep_def command_job_for_sweep_def
      command_call_def)

section \<open>The claims\<close>




text \<open>
  C2, as stated. The claim has a step that polls for results between the submission of
  the sweep and the download. The script has none: the cell between the two prints the
  URL where the job can be monitored and asks the platform nothing. In the recorded
  run, which reaches its end, what follows the entry into the monitoring cell is that
  one line of output, then the download and the deletion.
\<close>

theorem monitoring_cell_only_prints_url:
  "run_end recorded_config recorded_platform = None
   \<and> dropWhile (\<lambda>e. e \<noteq> Begin Monitor_SweepJobs)
        (run_log recorded_config recorded_platform) =
       [Begin Monitor_SweepJobs,
        Print (''Monitor your job at https://ml.azure.com/runs/eager_turtle_r7fs2xzcty''
               @ newline),
        Begin Download_Best_Model,
        Call (Jobs_download ''eager_turtle_r7fs2xzcty'' ''model''),
        Begin Delete_Cluster,
        Call (Compute_begin_delete gpu_compute_target)]"
  by (simp add: recorded_run recorded_monitoring)

text \<open>
  C2, amended. In every run the steps occur in the order of the flow: the cells a run
  enters are an initial part of the notebook's cells in their order, and the steps of
  the flow among them an initial part of the flow (workspace handle, dataset URI,
  get-or-create compute, container environment, training job, sweep definition, sweep
  submission, printing the URL where the sweep can be monitored, download, cluster
  deletion); a run that ends without an exception has gone through all of them. The API
  calls follow the same order, and the download is the call right after the submission
  of the sweep: the script does not poll. The cluster deletion, when a run makes it, is
  its last API call and comes right after the download.
\<close>

theorem steps_in_flow_order:
  "prefix (cells (run_log cfg p)) notebook_cells
   \<and> prefix (filter (\<lambda>c. c \<in> set flow) (cells (run_log cfg p))) flow
   \<and> prefix (remdups_adj (map step_of (calls (run_log cfg p)))) api_flow
   \<and> (run_end cfg p = None \<longrightarrow>
        cells (run_log cfg p) = notebook_cells
        \<and> filter (\<lambda>c. c \<in> set flow) (cells (run_log cfg p)) = flow
        \<and> remdups_adj (map step_of (calls (run_log cfg p))) = api_flow)
   \<and> (\<forall>n out. Jobs_download n out \<in> set (calls (run_log cfg p)) \<longrightarrow>
          (\<exists>s. last (takeWhile (\<lambda>c. c \<noteq> Jobs_download n out) (calls (run_log cfg p)))
                 = Create_or_update s))
   \<and> (\<forall>n. Compute_begin_delete n \<in> set (calls (run_log cfg p)) \<longrightarrow>
          last (calls (run_log cfg p)) = Compute_begin_delete n
          \<and> (\<exists>m. last (butlast (calls (run_log cfg p))) = Jobs_download m ''model''))"
  unfolding run_calls run_cells
  by (cases rule: run_cases [of cfg p])
    (simp_all add: steps_defs notebook_cells_def flow_def api_flow_def)

theorem steps_in_flow_order_witness:
  "run_end recorded_config recorded_platform = None
   \<and> cells (run_log recorded_config recorded_platform) = notebook_cells
   \<and> filter (\<lambda>c. c \<in> set flow) (cells (run_log recorded_config recorded_platform)) = flow
   \<and> Jobs_download ''eager_turtle_r7fs2xzcty'' ''model''
        \<in> set (calls (run_log recorded_config recorded_platform))
   \<and> Compute_begin_delete gpu_compute_target
        \<in> set (calls (run_log recorded_config recorded_platform))
   \<and> last (calls (run_log recorded_config recorded_platform))
        = Compute_begin_delete gpu_compute_target
   \<and> last (butlast (calls (run_log recorded_config recorded_platform)))
        = Jobs_download ''eager_turtle_r7fs2xzcty'' ''model''"
  using steps_in_flow_order [of recorded_config recorded_platform]
  unfolding run_calls run_cells
  by (simp add: recorded_run recorded_answers steps_defs lookup_raises_MlException_def
      recorded_sweep_job_def notebook_cells_def flow_def api_flow_def)

text \<open>
  C3, as stated. The dataset reference is the datastore URI built from the handle's
  fields and the two constants; but the configuration values are not the only data
  passed to the API calls. The download call is passed the name of the sweep job that
  the platform returned: two runs with the same configuration and the same workspace
  handle, on platforms that name the returned sweep job differently, pass different
  data to the download call. And the sweep submitted carries, as the code and the
  environment of its trial, the identifiers to which the platform resolved the
  training job when it was submitted.
\<close>

theorem download_name_is_not_configuration:
  "workspace_answer recorded_config platform_other_job_name
     = workspace_answer recorded_config recorded_platform
   \<and> Jobs_download ''eager_turtle_r7fs2xzcty'' ''model''
        \<in> set (calls (run_log recorded_config recorded_platform))
   \<and> Jobs_download ''happy_otter_x1'' ''model''
        \<in> set (calls (run_log recorded_config platform_other_job_name))
   \<and> calls (run_log recorded_config recorded_platform)
        \<noteq> calls (run_log recorded_config platform_other_job_name)
   \<and> Create_or_update
        (sweep_job (rewritten (command_job (getcwd recorded_config) (data_uri recorded_handle))
           recorded_ids))
        \<in> set (calls (run_log recorded_config recorded_platform))
   \<and> job_code (trial
        (sweep_job (rewritten (command_job (getcwd recorded_config) (data_uri recorded_handle))
           recorded_ids)))
       = resolved_code recorded_ids
   \<and> resolved_code recorded_ids \<noteq> getcwd recorded_config"
proof -
  have "job_code (trial
        (sweep_job (rewritten (command_job (getcwd recorded_config) (data_uri recorded_handle))
           recorded_ids)))
       = resolved_code recorded_ids"
    by (simp add: sweep_trial_fields rewritten_def)
  moreover have "resolved_code recorded_ids \<noteq> getcwd recorded_config"
    by (simp add: recorded_ids_def recorded_config_def)
  moreover have "workspace_answer recorded_config platform_other_job_name
     = workspace_answer recorded_config recorded_platform
   \<and> Jobs_download ''eager_turtle_r7fs2xzcty'' ''model''
        \<in> set (calls (run_log recorded_config recorded_platform))
   \<and> Jobs_download ''happy_otter_x1'' ''model''
        \<in> set (calls (run_log recorded_config platform_other_job_name))
   \<and> calls (run_log recorded_config recorded_platform)
        \<noteq> calls (run_log recorded_config platform_other_job_name)
   \<and> Create_or_update
        (sweep_job (rewritten (command_job (getcwd recorded_config) (data_uri recorded_handle))
           recorded_ids))
        \<in> set (calls (run_log recorded_config recorded_platform))"
    unfolding run_calls
    by (simp add: recorded_run recorded_answers other_job_name_run other_job_name_answers
        steps_defs lookup_raises_MlException_def recorded_sweep_job_def)
  ultimately show ?thesis
    by simp
qed

text \<open>
  C3, amended. The dataset reference passed to the training job (its input \<open>data_dir\<close>)
  is the datastore URI equal to \<open>azureml://subscriptions/\<close> + subscription id +
  \<open>/resourcegroups/\<close> + resource group name + \<open>/workspaces/\<close> + workspace name +
  \<open>/datastores/workspaceartifactstore/paths/airline_20000000.parquet\<close>, built from the
  workspace handle's fields and the two local constants. Every API call of a run is the
  construction of the handle from the three credentials, or a call whose arguments are
  fixed by the script's literals, the working directory and the handle's fields, or one
  of the two calls that pass on what the platform returned: the submission of the sweep,
  derived from the training job as its submission rewrote it (code, environment and
  compute replaced by the identifiers the platform resolved), and the download, whose
  first argument is the name of the sweep job the platform returned.
\<close>

theorem dataset_reference_and_api_data:
  "data_uri h =
     ''azureml://subscriptions/'' @ subscription_id h
     @ ''/resourcegroups/'' @ resource_group_name h
     @ ''/workspaces/'' @ workspace_name h
     @ ''/datastores/workspaceartifactstore/paths/airline_20000000.parquet''
   \<and> (\<forall>j. Jobs_create_or_update j \<in> set (calls (run_log cfg p)) \<longrightarrow>
          (\<exists>h'. workspace_answer cfg p = Inr h'
             \<and> map_of (job_inputs j) ''data_dir'' = Some (Input ''uri_file'' (data_uri h'))))
   \<and> (\<forall>c \<in> set (calls (run_log cfg p)).
          c = workspace_call cfg
          \<or> (\<exists>h'. workspace_answer cfg p = Inr h'
                \<and> (c \<in> set (configured_calls cfg h')
                   \<or> (\<exists>ids j.
                         jobs_create_or_update p (command_job (getcwd cfg) (data_uri h'))
                           = Inr (ids, j)
                         \<and> (c = Create_or_update
                                  (sweep_job (rewritten (command_job (getcwd cfg) (data_uri h'))
                                     ids))
                            \<or> (\<exists>sj. create_or_update p
                                       (sweep_job
                                          (rewritten (command_job (getcwd cfg) (data_uri h'))
                                             ids)) = Inr sj
                                    \<and> c = Jobs_download (job_name sj) ''model''))))))"
proof (intro conjI allI impI ballI)
  show "data_uri h =
     ''azureml://subscriptions/'' @ subscription_id h
     @ ''/resourcegroups/'' @ resource_group_name h
     @ ''/workspaces/'' @ workspace_name h
     @ ''/datastores/workspaceartifactstore/paths/airline_20000000.parquet''"
    by (simp add: data_uri_def datastore_name_def dataset_def)
next
  fix j
  assume "Jobs_create_or_update j \<in> set (calls (run_log cfg p))"
  then obtain h' where "workspace_answer cfg p = Inr h'"
    "j = command_job (getcwd cfg) (data_uri h')"
    using submitted_training_job by blast
  then show "\<exists>h'. workspace_answer cfg p = Inr h'
      \<and> map_of (job_inputs j) ''data_dir'' = Some (Input ''uri_file'' (data_uri h'))"
    by (simp add: command_job_inputs)
next
  fix c
  assume "c \<in> set (calls (run_log cfg p))"
  then show "c = workspace_call cfg
          \<or> (\<exists>h'. workspace_answer cfg p = Inr h'
                \<and> (c \<in> set (configured_calls cfg h')
                   \<or> (\<exists>ids j.
                         jobs_create_or_update p (command_job (getcwd cfg) (data_uri h'))
                           = Inr (ids, j)
                         \<and> (c = Create_or_update
                                  (sweep_job (rewritten (command_job (getcwd cfg) (data_uri h'))
                                     ids))
                            \<or> (\<exists>sj. create_or_update p
                                       (sweep_job
                                          (rewritten (command_job (getcwd cfg) (data_uri h'))
                                             ids)) = Inr sj
                                    \<and> c = Jobs_download (job_name sj) ''model'')))))"
    unfolding run_calls
    by (cases rule: run_cases [of cfg p])
      (auto simp add: steps_defs configured_calls_def split: if_splits)
qed

theorem dataset_reference_and_api_data_witness:
  "Jobs_create_or_update (command_job (getcwd recorded_config) (data_uri recorded_handle))
     \<in> set (calls (run_log recorded_config recorded_platform))
   \<and> map_of (job_inputs (command_job (getcwd recorded_config) (data_uri recorded_handle)))
        ''data_dir''
      = Some (Input ''uri_file''
          (''azureml://subscriptions/fc4f4a6b-4041-4b1c-8249-854d68edcf62''
           @ ''/resourcegroups/rapidsai-deployment/workspaces/rapids-aml-cluster''
           @ ''/datastores/workspaceartifactstore/paths/airline_20000000.parquet''))
   \<and> Jobs_download (job_name recorded_sweep_job) ''model''
       \<in> set (calls (run_log recorded_config recorded_platform))
   \<and> jobs_create_or_update recorded_platform
        (command_job (getcwd recorded_config) (data_uri recorded_handle))
      = Inr (recorded_ids, recorded_job)
   \<and> create_or_update recorded_platform
        (sweep_job (rewritten (command_job (getcwd recorded_config) (data_uri recorded_handle))
           recorded_ids))
      = Inr recorded_sweep_job"
  using dataset_reference_and_api_data [of recorded_handle recorded_config recorded_platform]
  unfolding run_calls
  by (simp add: recorded_run recorded_answers steps_defs lookup_raises_MlException_def
      command_job_inputs recorded_handle_def)

text \<open>
  C4. The sweep derived from the training job uses random sampling and the primary
  metric \<open>Accuracy\<close> with goal \<open>Maximize\<close>. Its search space has \<open>n_estimators\<close> drawn by
  \<open>Choice\<close> from the integers 50 through 499, \<open>max_depth\<close> drawn by \<open>Choice\<close> from the
  integers 5 through 18, and \<open>max_features\<close> drawn \<open>Uniform\<close> from 0.2 to 1.0, and
  nothing else. This holds of the sweep derived from the training job as built, and of
  the sweep derived from it as its submission rewrote it, whatever the identifiers.
\<close>

theorem sweep_configuration:
  "sampling_algorithm (sweep_job (command_job cwd uri)) = ''random''
   \<and> primary_metric (sweep_job (command_job cwd uri)) = ''Accuracy''
   \<and> goal (sweep_job (command_job cwd uri)) = ''Maximize''
   \<and> search_space (sweep_job (command_job cwd uri)) =
       [(''n_estimators'', Choice (py_range 50 500)),
        (''max_depth'', Choice (py_range 5 19)),
        (''max_features'', Uniform 0.2 1.0)]
   \<and> set (py_range 50 500) = {50..499} \<and> distinct (py_range 50 500)
   \<and> set (py_range 5 19) = {5..18} \<and> distinct (py_range 5 19)
   \<and> sampling_algorithm (sweep_job (rewritten (command_job cwd uri) ids)) = ''random''
   \<and> primary_metric (sweep_job (rewritten (command_job cwd uri) ids)) = ''Accuracy''
   \<and> goal (sweep_job (rewritten (command_job cwd uri) ids)) = ''Maximize''
   \<and> search_space (sweep_job (rewritten (command_job cwd uri) ids)) =
       [(''n_estimators'', Choice (py_range 50 500)),
        (''max_depth'', Choice (py_range 5 19)),
        (''max_features'', Uniform 0.2 1.0)]"
proof -
  have "search_space (sweep_job (command_job cwd uri)) =
       [(''n_estimators'', Choice (py_range 50 500)),
        (''max_depth'', Choice (py_range 5 19)),
        (''max_features'', Uniform 0.2 1.0)]"
    by (simp add: search_space_def sweep_trial_inputs [OF refl])
  moreover have "search_space (sweep_job (rewritten (command_job cwd uri) ids)) =
       [(''n_estimators'', Choice (py_range 50 500)),
        (''max_depth'', Choice (py_range 5 19)),
        (''max_features'', Uniform 0.2 1.0)]"
    by (simp add: search_space_def sweep_trial_inputs [OF rewritten_inputs])
  moreover have "sampling_algorithm (sweep_job job) = ''random''"
    "primary_metric (sweep_job job) = ''Accuracy''"
    "goal (sweep_job job) = ''Maximize''" for job
    by (simp_all add: sweep_job_def set_limits_def sweep_def)
  moreover have "set (py_range 50 500) = {50..499}" "set (py_range 5 19) = {5..18}"
    using set_py_range [of 50 500] set_py_range [of 5 19] by simp_all
  moreover have "distinct (py_range 50 500)" "distinct (py_range 5 19)"
    by (rule distinct_py_range)+
  ultimately show ?thesis
    by simp
qed

text \<open>
  C5. Every sweep job a run submits carries the limits \<open>max_total_trials = 10\<close>,
  \<open>max_concurrent_trials = 2\<close>, \<open>timeout = 18000\<close> and \<open>trial_timeout = 3600\<close>. The script
  runs no trials itself: a run is one sequence of API calls, in which the sweep is
  submitted at most once (exactly once when the run reaches its end) and at most two
  jobs are submitted in all; the concurrency of the trials is only the number in the
  limits handed over.
\<close>

theorem sweep_limits_handed_to_platform:
  "(\<forall>s. Create_or_update s \<in> set (calls (run_log cfg p)) \<longrightarrow>
       limits s = Some \<lparr>max_total_trials = 10, max_concurrent_trials = 2,
                         timeout = 18000, trial_timeout = 3600\<rparr>)
   \<and> length (filter is_sweep_submission (calls (run_log cfg p))) \<le> 1
   \<and> length (filter is_submission (calls (run_log cfg p))) \<le> 2
   \<and> (run_end cfg p = None \<longrightarrow>
        length (filter is_sweep_submission (calls (run_log cfg p))) = 1)"
proof -
  have "limits s = Some \<lparr>max_total_trials = 10, max_concurrent_trials = 2,
                         timeout = 18000, trial_timeout = 3600\<rparr>"
    if "Create_or_update s \<in> set (calls (run_log cfg p))" for s
    using submitted_sweep_job [OF that]
    by (auto simp add: sweep_job_def set_limits_def sweep_def)
  moreover have "length (filter is_sweep_submission (calls (run_log cfg p))) \<le> 1
   \<and> length (filter is_submission (calls (run_log cfg p))) \<le> 2
   \<and> (run_end cfg p = None \<longrightarrow>
        length (filter is_sweep_submission (calls (run_log cfg p))) = 1)"
    unfolding run_calls
    by (cases rule: run_cases [of cfg p]) (simp_all add: steps_defs)
  ultimately show ?thesis
    by blast
qed

theorem sweep_limits_handed_to_platform_witness:
  "Create_or_update
     (sweep_job (rewritten (command_job (getcwd recorded_config) (data_uri recorded_handle))
        recorded_ids))
     \<in> set (calls (run_log recorded_config recorded_platform))
   \<and> limits
        (sweep_job (rewritten (command_job (getcwd recorded_config) (data_uri recorded_handle))
           recorded_ids))
      = Some \<lparr>max_total_trials = 10, max_concurrent_trials = 2,
               timeout = 18000, trial_timeout = 3600\<rparr>
   \<and> run_end recorded_config recorded_platform = None
   \<and> length (filter is_sweep_submission (calls (run_log recorded_config recorded_platform))) = 1"
  using sweep_limits_handed_to_platform [of recorded_config recorded_platform]
  unfolding run_calls
  by (simp add: recorded_run recorded_answers steps_defs lookup_raises_MlException_def)

text \<open>
  C6, as stated. Two runs with the same subscription id, resource group and workspace
  name (and the same constants and input dictionary, which the script fixes) do not
  always build the same command job: the job's \<open>code\<close> is the working directory
  (\<open>os.getcwd()\<close>), so the same notebook run from two directories submits two
  different command jobs.
\<close>

theorem command_job_differs_with_cwd:
  "cfg_subscription_id config_elsewhere = cfg_subscription_id recorded_config
   \<and> cfg_resource_group_name config_elsewhere = cfg_resource_group_name recorded_config
   \<and> cfg_workspace_name config_elsewhere = cfg_workspace_name recorded_config
   \<and> workspace_answer config_elsewhere recorded_platform
      = workspace_answer recorded_config recorded_platform
   \<and> Jobs_create_or_update (command_job (getcwd recorded_config) (data_uri recorded_handle))
       \<in> set (calls (run_log recorded_config recorded_platform))
   \<and> Jobs_create_or_update (command_job (getcwd config_elsewhere) (data_uri recorded_handle))
       \<in> set (calls (run_log config_elsewhere recorded_platform))
   \<and> command_job (getcwd recorded_config) (data_uri recorded_handle)
      \<noteq> command_job (getcwd config_elsewhere) (data_uri recorded_handle)"
proof -
  have "job_code (command_job (getcwd recorded_config) (data_uri recorded_handle))
      \<noteq> job_code (command_job (getcwd config_elsewhere) (data_uri recorded_handle))"
    by (simp add: command_job_def recorded_config_def config_elsewhere_def)
  then have "command_job (getcwd recorded_config) (data_uri recorded_handle)
      \<noteq> command_job (getcwd config_elsewhere) (data_uri recorded_handle)"
    by metis
  moreover have "cfg_subscription_id config_elsewhere = cfg_subscription_id recorded_config"
    "cfg_resource_group_name config_elsewhere = cfg_resource_group_name recorded_config"
    "cfg_workspace_name config_elsewhere = cfg_workspace_name recorded_config"
    by (simp_all add: config_elsewhere_def)
  moreover have
    "Jobs_create_or_update (command_job (getcwd recorded_config) (data_uri recorded_handle))
       \<in> set (calls (run_log recorded_config recorded_platform))"
    "Jobs_create_or_update (command_job (getcwd config_elsewhere) (data_uri recorded_handle))
       \<in> set (calls (run_log config_elsewhere recorded_platform))"
    unfolding run_calls
    by (simp_all add: recorded_run elsewhere_run steps_defs)
  ultimately show ?thesis
    by (simp add: elsewhere_answer recorded_answers)
qed

text \<open>
  C6, amended. The locally computed request configuration is deterministic: for every
  two runs, on any two platforms, whose workspace handles have the same subscription
  id, resource group and workspace name, the constructed datastore URI is the same;
  and when the two runs also have the same working directory, the command jobs they
  submit are identical, whatever else the two platforms answer.
\<close>

theorem request_configuration_deterministic:
  "workspace_answer cfg p = Inr h \<and> workspace_answer cfg' p' = Inr h'
   \<and> subscription_id h = subscription_id h'
   \<and> resource_group_name h = resource_group_name h'
   \<and> workspace_name h = workspace_name h'
   \<longrightarrow> data_uri h = data_uri h'
       \<and> (getcwd cfg = getcwd cfg' \<longrightarrow>
            (\<forall>j j'. Jobs_create_or_update j \<in> set (calls (run_log cfg p))
                 \<and> Jobs_create_or_update j' \<in> set (calls (run_log cfg' p'))
                 \<longrightarrow> j = j'))"
proof (intro impI conjI allI)
  assume a: "workspace_answer cfg p = Inr h \<and> workspace_answer cfg' p' = Inr h'
   \<and> subscription_id h = subscription_id h'
   \<and> resource_group_name h = resource_group_name h'
   \<and> workspace_name h = workspace_name h'"
  then show uri: "data_uri h = data_uri h'"
    by (simp add: data_uri_def)
  fix j j'
  assume cwd: "getcwd cfg = getcwd cfg'"
    and js: "Jobs_create_or_update j \<in> set (calls (run_log cfg p))
                 \<and> Jobs_create_or_update j' \<in> set (calls (run_log cfg' p'))"
  from js a have "j = command_job (getcwd cfg) (data_uri h)"
    using submitted_training_job [of j cfg p] by auto
  moreover from js a have "j' = command_job (getcwd cfg') (data_uri h')"
    using submitted_training_job [of j' cfg' p'] by auto
  ultimately show "j = j'"
    using uri cwd by simp
qed

theorem request_configuration_deterministic_witness:
  "workspace_answer recorded_config recorded_platform = Inr recorded_handle
   \<and> workspace_answer recorded_config platform_without_cluster = Inr recorded_handle
   \<and> Jobs_create_or_update (command_job (getcwd recorded_config) (data_uri recorded_handle))
       \<in> set (calls (run_log recorded_config recorded_platform))
   \<and> Jobs_create_or_update (command_job (getcwd recorded_config) (data_uri recorded_handle))
       \<in> set (calls (run_log recorded_config platform_without_cluster))
   \<and> calls (run_log recorded_config recorded_platform)
      \<noteq> calls (run_log recorded_config platform_without_cluster)"
  using request_configuration_deterministic
    [of recorded_config recorded_platform recorded_handle
        recorded_config platform_without_cluster recorded_handle]
  unfolding run_calls
  by (simp add: recorded_run recorded_answers without_cluster_run without_cluster_answers
      steps_defs lookup_raises_MlException_def)

text \<open>
  C7. The download comes after the sweep is submitted and targets the returned sweep
  job: every download call of a run is made with the name of the job that the
  submission of the sweep returned and asks for the output named \<open>model\<close>, and the
  submission of the sweep is made before it. A run that reaches its end has made that
  download.
\<close>

theorem download_of_returned_sweep_job:
  "(\<forall>n out. Jobs_download n out \<in> set (calls (run_log cfg p)) \<longrightarrow>
       out = ''model''
       \<and> (\<exists>h ids j sj. workspace_answer cfg p = Inr h
             \<and> jobs_create_or_update p (command_job (getcwd cfg) (data_uri h)) = Inr (ids, j)
             \<and> create_or_update p
                 (sweep_job (rewritten (command_job (getcwd cfg) (data_uri h)) ids)) = Inr sj
             \<and> n = job_name sj
             \<and> Create_or_update
                 (sweep_job (rewritten (command_job (getcwd cfg) (data_uri h)) ids))
                 \<in> set (takeWhile (\<lambda>c. c \<noteq> Jobs_download n out) (calls (run_log cfg p)))))
   \<and> (run_end cfg p = None \<longrightarrow>
        (\<exists>n. Jobs_download n ''model'' \<in> set (calls (run_log cfg p))))"
  unfolding run_calls
  by (cases rule: run_cases [of cfg p]) (auto simp add: steps_defs)

theorem download_of_returned_sweep_job_witness:
  "Jobs_download ''eager_turtle_r7fs2xzcty'' ''model''
     \<in> set (calls (run_log recorded_config recorded_platform))
   \<and> create_or_update recorded_platform
        (sweep_job (rewritten (command_job (getcwd recorded_config) (data_uri recorded_handle))
           recorded_ids))
      = Inr recorded_sweep_job
   \<and> job_name recorded_sweep_job = ''eager_turtle_r7fs2xzcty''
   \<and> run_end recorded_config recorded_platform = None"
  using download_of_returned_sweep_job [of recorded_config recorded_platform]
  unfolding run_calls
  by (simp add: recorded_run recorded_answers steps_defs lookup_raises_MlException_def
      recorded_sweep_job_def)



text \<open>
  C9. The training job always references the environment by the fixed name
  \<open>rapids-mlflow:1\<close>, whatever version the registration of \<open>rapids-mlflow\<close> just before
  produced: the job names the environment just registered only if the version the
  platform gave it is \<open>1\<close>.
\<close>

theorem training_job_environment_is_fixed:
  "\<forall>j. Jobs_create_or_update j \<in> set (calls (run_log cfg p)) \<longrightarrow>
     job_environment j = ''rapids-mlflow:1''
     \<and> env_name (env_docker_image (getcwd cfg)) = ''rapids-mlflow''
     \<and> Environments_create_or_update (env_docker_image (getcwd cfg))
         \<in> set (takeWhile (\<lambda>c. c \<noteq> Jobs_create_or_update j) (calls (run_log cfg p)))
     \<and> (\<exists>v. environments_create_or_update p (env_docker_image (getcwd cfg)) = Inr v
            \<and> (job_environment j = env_name (env_docker_image (getcwd cfg)) @ '':'' @ v
                 \<longleftrightarrow> v = ''1''))"
proof -
  have env: "job_environment (command_job cwd uri) = ''rapids-mlflow:1''"
    "env_name (env_docker_image cwd) = ''rapids-mlflow''" for cwd uri
    by (simp_all add: command_job_def env_docker_image_def)
  show ?thesis
    unfolding run_calls
    by (cases rule: run_cases [of cfg p]) (auto simp add: steps_defs env)
qed

theorem training_job_environment_is_fixed_witness:
  "Jobs_create_or_update (command_job (getcwd recorded_config) (data_uri recorded_handle))
     \<in> set (calls (run_log recorded_config recorded_platform))
   \<and> environments_create_or_update recorded_platform
        (env_docker_image (getcwd recorded_config)) = Inr ''10''
   \<and> job_environment (command_job (getcwd recorded_config) (data_uri recorded_handle))
      = ''rapids-mlflow:1''
   \<and> job_environment (command_job (getcwd recorded_config) (data_uri recorded_handle))
      \<noteq> env_name (env_docker_image (getcwd recorded_config)) @ '':'' @ ''10''"
  using training_job_environment_is_fixed [of recorded_config recorded_platform]
  unfolding run_calls
  by (simp add: recorded_run recorded_answers steps_defs lookup_raises_MlException_def
      command_job_def env_docker_image_def)




end
